theory Spec2Isabelle
  imports Main "HOL-Library.Multiset"
begin

section \<open>Go error values\<close>

text \<open>
  The error values that occur in the repository, as a datatype. Go compares error values
  by identity; the two package-level variables that the code compares against,
  \<^verbatim>\<open>repository.ErrTaskNotFound\<close> and \<^verbatim>\<open>sql.ErrNoRows\<close>, are constructors of
  their own, so that no other value is equal to them. \<open>ErrorString s\<close> is a value made by
  \<^verbatim>\<open>errors.New(s)\<close> (also by \<^verbatim>\<open>fmt.Errorf\<close> without a \<^verbatim>\<open>%w\<close> verb),
  \<open>DriverError s\<close> any other error of \<^verbatim>\<open>database/sql\<close> or of the driver, and
  \<open>WrapError msg err\<close> the value of \<^verbatim>\<open>fmt.Errorf\<close> with one \<^verbatim>\<open>%w\<close> verb: its
  message and the error it wraps. The same Go value is the same value here; the facts
  below take two errors for the same only when they are one value handed on, and for
  different only when they differ in kind or in text.
\<close>

datatype go_error =
    ErrTaskNotFound
  | ErrNoRows
  | ErrorString string
  | DriverError string
  | WrapError string go_error

fun Error :: "go_error \<Rightarrow> string" where
  "Error ErrTaskNotFound = ''task not found''"
| "Error ErrNoRows = ''sql: no rows in result set''"
| "Error (ErrorString s) = s"
| "Error (DriverError s) = s"
| "Error (WrapError msg err) = msg"

fun Unwrap :: "go_error \<Rightarrow> go_error option" where
  "Unwrap (WrapError msg err) = Some err"
| "Unwrap err = None"

text \<open>\<^verbatim>\<open>errors.Is\<close>: the chain of \<open>Unwrap\<close> is followed until a value equal to the target is found.\<close>

fun errors_Is :: "go_error \<Rightarrow> go_error \<Rightarrow> bool" where
  "errors_Is (WrapError msg err) target = (WrapError msg err = target \<or> errors_Is err target)"
| "errors_Is err target = (err = target)"

definition errors_New :: "string \<Rightarrow> go_error" where
  "errors_New s = ErrorString s"

text \<open>\<^verbatim>\<open>fmt.Errorf(prefix + "%w", err)\<close>: the message is the prefix followed by the message of \<open>err\<close>.\<close>

definition Errorf_w :: "string \<Rightarrow> go_error \<Rightarrow> go_error" where
  "Errorf_w prefix err = WrapError (prefix @ Error err) err"

subsection \<open>The verb \<^verbatim>\<open>%d\<close>\<close>

definition digit :: "nat \<Rightarrow> char" where
  "digit n = ''0123456789'' ! (n mod 10)"

function digits :: "nat \<Rightarrow> string" where
  "digits n = (if n < 10 then [digit n] else digits (n div 10) @ [digit n])"
  by pat_completeness auto
termination
  by (relation "measure (\<lambda>n. n)") auto

definition Itoa :: "int \<Rightarrow> string" where
  "Itoa i = (if i < 0 then CHR ''-'' # digits (nat (- i)) else digits (nat i))"

section \<open>Data model (internal/models/task.go)\<close>

type_synonym time = nat

record Task =
  ID :: int
  Title :: string
  Description :: string
  Status :: string
  CreatedAt :: time
  UpdatedAt :: time

record CreateTaskRequest =
  create_Title :: string
  create_Description :: string

record UpdateTaskRequest =
  update_Title :: string
  update_Description :: string
  update_Status :: string

text \<open>A slice of tasks: \<open>None\<close> is the nil slice, \<open>Some []\<close> the empty slice that is not nil.\<close>

type_synonym tasks_slice = "Task list option"

section \<open>The repository interface (internal/repository/task_repository.go)\<close>

text \<open>
  \<^verbatim>\<open>TaskRepository\<close> is an interface; the service holds a value of it. An implementation is
  a record of state-passing functions over its own state \<open>'s\<close>. A method that returns
  \<^verbatim>\<open>(*Task, error)\<close> returns the error on the left or the task on the right; \<open>Create\<close> and
  \<open>Update\<close>, which write through the task pointer, return the task as written. Tasks
  are values: the SQL implementation allocates the task of every \<open>GetByID\<close> anew and
  keeps no pointer to a task it was given. Go's \<^verbatim>\<open>int\<close> is \<open>int\<close>: an id is compared
  with zero, handed on and printed, and never computed with.
\<close>

record 's TaskRepository =
  Create :: "Task \<Rightarrow> 's \<Rightarrow> (go_error + Task) \<times> 's"
  GetByID :: "int \<Rightarrow> 's \<Rightarrow> (go_error + Task) \<times> 's"
  GetAll :: "'s \<Rightarrow> (go_error + tasks_slice) \<times> 's"
  Update :: "Task \<Rightarrow> 's \<Rightarrow> (go_error + Task) \<times> 's"
  Delete :: "int \<Rightarrow> 's \<Rightarrow> go_error option \<times> 's"

section \<open>The SQL implementation of the repository\<close>

text \<open>
  The database behind \<^verbatim>\<open>*sql.DB\<close>: the rows of table \<^verbatim>\<open>tasks\<close>, the sequence behind
  the \<^verbatim>\<open>SERIAL\<close> column, the log of the statements sent, and the environment. The
  environment is indexed by the number of driver interactions so far (\<open>ticks\<close>): \<open>fault\<close>
  says whether the next interaction fails (connectivity, a constraint of the schema, a
  failing \<^verbatim>\<open>Scan\<close>) and with which error, \<open>clock\<close> is what \<^verbatim>\<open>NOW()\<close> yields then.
\<close>

datatype sql_stmt =
    INSERT string string string
  | SELECT_BY_ID int
  | SELECT_ALL
  | UPDATE string string string int
  | DELETE int

record db =
  rows :: "Task list"
  next_id :: int
  statements :: "sql_stmt list"
  ticks :: nat
  fault :: "nat \<Rightarrow> go_error option"
  clock :: "nat \<Rightarrow> time"

definition send :: "sql_stmt \<Rightarrow> db \<Rightarrow> db" where
  "send stmt d = d\<lparr>statements := statements d @ [stmt], ticks := Suc (ticks d)\<rparr>"

text \<open>
  \<^verbatim>\<open>INSERT INTO tasks (title, description, status, created_at, updated_at)
  VALUES ($1, $2, $3, NOW(), NOW()) RETURNING id, created_at, updated_at\<close>,
  scanned into the task's \<open>ID\<close>, \<open>CreatedAt\<close> and \<open>UpdatedAt\<close>.
\<close>

definition taskRepository_Create :: "Task \<Rightarrow> db \<Rightarrow> (go_error + Task) \<times> db" where
  "taskRepository_Create task d =
     (let d1 = send (INSERT (Title task) (Description task) (Status task)) d in
      case fault d (ticks d) of
        Some err \<Rightarrow> (Inl err, d1)
      | None \<Rightarrow>
          let now = clock d (ticks d);
              row = \<lparr>ID = next_id d, Title = Title task, Description = Description task,
                     Status = Status task, CreatedAt = now, UpdatedAt = now\<rparr>
          in (Inr (task\<lparr>ID := ID row, CreatedAt := CreatedAt row, UpdatedAt := UpdatedAt row\<rparr>),
              d1\<lparr>rows := rows d @ [row], next_id := next_id d + 1\<rparr>))"

text \<open>
  \<^verbatim>\<open>SELECT ... FROM tasks WHERE id = $1\<close> through \<^verbatim>\<open>QueryRow(...).Scan(...)\<close>, which
  yields \<^verbatim>\<open>sql.ErrNoRows\<close> when no row matches.
\<close>

definition QueryRow_by_id :: "int \<Rightarrow> db \<Rightarrow> go_error + Task" where
  "QueryRow_by_id tid d =
     (case fault d (ticks d) of
        Some err \<Rightarrow> Inl err
      | None \<Rightarrow> (case find (\<lambda>r. ID r = tid) (rows d) of
                   None \<Rightarrow> Inl ErrNoRows
                 | Some r \<Rightarrow> Inr r))"

definition taskRepository_GetByID :: "int \<Rightarrow> db \<Rightarrow> (go_error + Task) \<times> db" where
  "taskRepository_GetByID tid d =
     (let d1 = send (SELECT_BY_ID tid) d in
      case QueryRow_by_id tid d of
        Inl err \<Rightarrow> if err = ErrNoRows then (Inl ErrTaskNotFound, d1) else (Inl err, d1)
      | Inr task \<Rightarrow> (Inr task, d1))"

text \<open>\<^verbatim>\<open>ORDER BY created_at DESC\<close>: the rows by decreasing creation time.\<close>

definition order_by_created_at_desc :: "Task list \<Rightarrow> Task list" where
  "order_by_created_at_desc rs = rev (sort_key CreatedAt rs)"

text \<open>
  The loop \<^verbatim>\<open>for rows.Next() { ... rows.Scan(...) ...; tasks = append(tasks, task) }\<close>
  over the rows that the query selected. A round is two interactions with the driver.
  \<^verbatim>\<open>rows.Next()\<close> is false at the end of the rows and also when fetching the next row
  fails; the method never reads \<^verbatim>\<open>rows.Err()\<close>, so in both cases the loop ends and the
  tasks scanned so far are returned with no error. A failing \<^verbatim>\<open>rows.Scan\<close> is returned
  as the error.
\<close>

fun scan_rows :: "Task list \<Rightarrow> Task list \<Rightarrow> db \<Rightarrow> (go_error + tasks_slice) \<times> db" where
  "scan_rows [] tasks d = (Inr (Some tasks), d\<lparr>ticks := Suc (ticks d)\<rparr>)"
| "scan_rows (r # rest) tasks d =
     (case fault d (ticks d) of
        Some err \<Rightarrow> (Inr (Some tasks), d\<lparr>ticks := Suc (ticks d)\<rparr>)
      | None \<Rightarrow>
          (case fault d (Suc (ticks d)) of
             Some err \<Rightarrow> (Inl err, d\<lparr>ticks := Suc (Suc (ticks d))\<rparr>)
           | None \<Rightarrow> scan_rows rest (tasks @ [r]) (d\<lparr>ticks := Suc (Suc (ticks d))\<rparr>)))"

definition taskRepository_GetAll :: "db \<Rightarrow> (go_error + tasks_slice) \<times> db" where
  "taskRepository_GetAll d =
     (let d1 = send SELECT_ALL d in
      case fault d (ticks d) of
        Some err \<Rightarrow> (Inl err, d1)
      | None \<Rightarrow> scan_rows (order_by_created_at_desc (rows d)) [] d1)"

text \<open>
  \<^verbatim>\<open>UPDATE tasks SET title = $1, description = $2, status = $3, updated_at = NOW()
  WHERE id = $4 RETURNING updated_at\<close>, scanned into the task's \<open>UpdatedAt\<close>; no row
  with that id gives \<^verbatim>\<open>sql.ErrNoRows\<close>, which this method returns as it is.
\<close>

definition set_row :: "Task \<Rightarrow> time \<Rightarrow> Task \<Rightarrow> Task" where
  "set_row task now r =
     (if ID r = ID task
      then r\<lparr>Title := Title task, Description := Description task, Status := Status task,
             UpdatedAt := now\<rparr>
      else r)"

definition taskRepository_Update :: "Task \<Rightarrow> db \<Rightarrow> (go_error + Task) \<times> db" where
  "taskRepository_Update task d =
     (let d1 = send (UPDATE (Title task) (Description task) (Status task) (ID task)) d in
      case fault d (ticks d) of
        Some err \<Rightarrow> (Inl err, d1)
      | None \<Rightarrow>
          let now = clock d (ticks d) in
          (case find (\<lambda>r. ID r = ID task) (rows d) of
             None \<Rightarrow> (Inl ErrNoRows, d1)
           | Some r \<Rightarrow> (Inr (task\<lparr>UpdatedAt := now\<rparr>),
                        d1\<lparr>rows := map (set_row task now) (rows d)\<rparr>)))"

text \<open>
  \<^verbatim>\<open>DELETE FROM tasks WHERE id = $1\<close> through \<^verbatim>\<open>Exec\<close>, then
  \<^verbatim>\<open>result.RowsAffected()\<close>, a second interaction with the driver.
\<close>

definition taskRepository_Delete :: "int \<Rightarrow> db \<Rightarrow> go_error option \<times> db" where
  "taskRepository_Delete tid d =
     (let d1 = send (DELETE tid) d in
      case fault d (ticks d) of
        Some err \<Rightarrow> (Some err, d1)
      | None \<Rightarrow>
          let rowsAffected = length (filter (\<lambda>r. ID r = tid) (rows d));
              d2 = d1\<lparr>rows := filter (\<lambda>r. ID r \<noteq> tid) (rows d), ticks := Suc (ticks d1)\<rparr>
          in (case fault d1 (ticks d1) of
                Some err \<Rightarrow> (Some err, d2)
              | None \<Rightarrow>
                  if rowsAffected = 0
                  then (Some (errors_New (''task with ID '' @ Itoa tid @ '' not found for deletion'')), d2)
                  else (None, d2)))"

definition taskRepository :: "db TaskRepository" where
  "taskRepository =
     \<lparr>Create = taskRepository_Create, GetByID = taskRepository_GetByID,
      GetAll = taskRepository_GetAll, Update = taskRepository_Update,
      Delete = taskRepository_Delete\<rparr>"

section \<open>The service (internal/service/task_service.go)\<close>

definition CreateTask :: "'s TaskRepository \<Rightarrow> CreateTaskRequest \<Rightarrow> 's \<Rightarrow> (go_error + Task) \<times> 's" where
  "CreateTask repo req s =
     (if create_Title req = []
      then (Inl (errors_New ''title is required''), s)
      else
        let task = \<lparr>ID = 0, Title = create_Title req, Description = create_Description req,
                    Status = ''pending'', CreatedAt = 0, UpdatedAt = 0\<rparr>
        in (case Create repo task s of
              (Inl err, s') \<Rightarrow> (Inl (Errorf_w ''failed to create task in repository: '' err), s')
            | (Inr task', s') \<Rightarrow> (Inr task', s')))"

definition GetTask :: "'s TaskRepository \<Rightarrow> int \<Rightarrow> 's \<Rightarrow> (go_error + Task) \<times> 's" where
  "GetTask repo tid s =
     (if tid \<le> 0
      then (Inl (errors_New ''invalid task ID''), s)
      else (case GetByID repo tid s of
              (Inl err, s') \<Rightarrow> (Inl (Errorf_w ''failed to get task from repository: '' err), s')
            | (Inr task, s') \<Rightarrow> (Inr task, s')))"

definition GetAllTasks :: "'s TaskRepository \<Rightarrow> 's \<Rightarrow> (go_error + tasks_slice) \<times> 's" where
  "GetAllTasks repo s =
     (case GetAll repo s of
        (Inl err, s') \<Rightarrow> (Inl (Errorf_w ''failed to get all tasks from repository: '' err), s')
      | (Inr tasks, s') \<Rightarrow> (Inr tasks, s'))"

text \<open>The last statements of \<^verbatim>\<open>UpdateTask\<close>: the call of \<open>Update\<close> and the two returns.\<close>

definition persist_update :: "'s TaskRepository \<Rightarrow> Task \<Rightarrow> 's \<Rightarrow> (go_error + Task) \<times> 's" where
  "persist_update repo existingTask s =
     (case Update repo existingTask s of
        (Inl err, s') \<Rightarrow> (Inl (Errorf_w ''failed to update task in repository: '' err), s')
      | (Inr task, s') \<Rightarrow> (Inr task, s'))"

text \<open>
  The task that \<open>GetByID\<close> returns is written to field by field. When the status is
  refused the function returns \<^verbatim>\<open>nil\<close> and the task written to, which no one else
  holds, is dropped.
\<close>

definition UpdateTask :: "'s TaskRepository \<Rightarrow> int \<Rightarrow> UpdateTaskRequest \<Rightarrow> 's \<Rightarrow> (go_error + Task) \<times> 's" where
  "UpdateTask repo tid req s =
     (if tid \<le> 0
      then (Inl (errors_New ''invalid task ID''), s)
      else (case GetByID repo tid s of
              (Inl err, s1) \<Rightarrow>
                (Inl (Errorf_w (''task with ID '' @ Itoa tid @ '' not found: '') err), s1)
            | (Inr existingTask, s1) \<Rightarrow>
                let t1 = (if update_Title req \<noteq> []
                          then existingTask\<lparr>Title := update_Title req\<rparr> else existingTask);
                    t2 = (if update_Description req \<noteq> []
                          then t1\<lparr>Description := update_Description req\<rparr> else t1)
                in if update_Status req \<noteq> []
                   then (if update_Status req \<noteq> ''pending'' \<and> update_Status req \<noteq> ''in_progress''
                            \<and> update_Status req \<noteq> ''completed''
                         then (Inl (errors_New ''invalid status value''), s1)
                         else persist_update repo (t2\<lparr>Status := update_Status req\<rparr>) s1)
                   else persist_update repo t2 s1))"

definition DeleteTask :: "'s TaskRepository \<Rightarrow> int \<Rightarrow> 's \<Rightarrow> go_error option \<times> 's" where
  "DeleteTask repo tid s =
     (if tid \<le> 0
      then (Some (errors_New ''invalid task ID''), s)
      else (case Delete repo tid s of
              (Some err, s') \<Rightarrow> (Some (Errorf_w ''failed to delete task from repository: '' err), s')
            | (None, s') \<Rightarrow> (None, s')))"

section \<open>The handlers (internal/handlers/task_handler.go)\<close>

text \<open>
  A handler's answer is the status code and the body it writes. What the standard library
  computes from the request before the service is called is an argument of the handler:
  \<open>atoi\<close> is the result of \<^verbatim>\<open>strconv.Atoi(mux.Vars(r)["id"])\<close> and \<open>decoded\<close> the
  result of decoding the JSON body into the request value.
\<close>

datatype body = Text string | JSON_Task Task | JSON_Tasks tasks_slice | Empty

record Response =
  StatusCode :: nat
  Body :: body

definition http_Error :: "string \<Rightarrow> nat \<Rightarrow> Response" where
  "http_Error msg code = \<lparr>StatusCode = code, Body = Text (msg @ [CHR 0x0A])\<rparr>"

definition handler_CreateTask ::
  "'s TaskRepository \<Rightarrow> go_error + CreateTaskRequest \<Rightarrow> 's \<Rightarrow> Response \<times> 's" where
  "handler_CreateTask repo decoded s =
     (case decoded of
        Inl err \<Rightarrow> (http_Error (''invalid request body: '' @ Error err) 400, s)
      | Inr req \<Rightarrow>
          (case CreateTask repo req s of
             (Inl err, s') \<Rightarrow> (http_Error (''failed to create task: '' @ Error err) 500, s')
           | (Inr task, s') \<Rightarrow> (\<lparr>StatusCode = 201, Body = JSON_Task task\<rparr>, s')))"

definition handler_GetTask :: "'s TaskRepository \<Rightarrow> go_error + int \<Rightarrow> 's \<Rightarrow> Response \<times> 's" where
  "handler_GetTask repo atoi s =
     (case atoi of
        Inl err \<Rightarrow> (http_Error ''invalid task ID format'' 400, s)
      | Inr tid \<Rightarrow>
          (case GetTask repo tid s of
             (Inl err, s') \<Rightarrow>
               if Error err = ''task with ID '' @ Itoa tid @ '' not found''
               then (http_Error (Error err) 404, s')
               else (http_Error (''failed to retrieve task: '' @ Error err) 500, s')
           | (Inr task, s') \<Rightarrow> (\<lparr>StatusCode = 200, Body = JSON_Task task\<rparr>, s')))"

definition handler_GetAllTasks :: "'s TaskRepository \<Rightarrow> 's \<Rightarrow> Response \<times> 's" where
  "handler_GetAllTasks repo s =
     (case GetAllTasks repo s of
        (Inl err, s') \<Rightarrow> (http_Error (''failed to retrieve tasks: '' @ Error err) 500, s')
      | (Inr tasks, s') \<Rightarrow> (\<lparr>StatusCode = 200, Body = JSON_Tasks tasks\<rparr>, s'))"

definition handler_UpdateTask ::
  "'s TaskRepository \<Rightarrow> go_error + int \<Rightarrow> go_error + UpdateTaskRequest \<Rightarrow> 's \<Rightarrow> Response \<times> 's" where
  "handler_UpdateTask repo atoi decoded s =
     (case atoi of
        Inl err \<Rightarrow> (http_Error ''invalid task ID format'' 400, s)
      | Inr tid \<Rightarrow>
          (case decoded of
             Inl err \<Rightarrow> (http_Error (''invalid request body: '' @ Error err) 400, s)
           | Inr req \<Rightarrow>
               (case UpdateTask repo tid req s of
                  (Inl err, s') \<Rightarrow>
                    if Error err = ''task with ID '' @ Itoa tid @ '' not found: sql: no rows in result set''
                       \<or> Error err = ''task with ID '' @ Itoa tid @ '' not found''
                    then (http_Error ''task not found'' 404, s')
                    else if Error err = ''invalid status value''
                    then (http_Error (Error err) 400, s')
                    else (http_Error (''failed to update task: '' @ Error err) 500, s')
                | (Inr task, s') \<Rightarrow> (\<lparr>StatusCode = 200, Body = JSON_Task task\<rparr>, s'))))"

definition handler_DeleteTask :: "'s TaskRepository \<Rightarrow> go_error + int \<Rightarrow> 's \<Rightarrow> Response \<times> 's" where
  "handler_DeleteTask repo atoi s =
     (case atoi of
        Inl err \<Rightarrow> (http_Error ''invalid task ID format'' 400, s)
      | Inr tid \<Rightarrow>
          (case DeleteTask repo tid s of
             (Some err, s') \<Rightarrow>
               if Error err = ''task with ID '' @ Itoa tid @ '' not found for deletion''
               then (http_Error (Error err) 404, s')
               else (http_Error (''failed to delete task: '' @ Error err) 500, s')
           | (None, s') \<Rightarrow> (\<lparr>StatusCode = 204, Body = Empty\<rparr>, s')))"

section \<open>Example states\<close>

text \<open>An empty table on a server that never fails, and a table of two tasks.\<close>

definition empty_db :: db where
  "empty_db = \<lparr>rows = [], next_id = 1, statements = [], ticks = 0,
               fault = (\<lambda>n. None), clock = (\<lambda>n. 1000 + n)\<rparr>"

definition task_one :: Task where
  "task_one = \<lparr>ID = 1, Title = ''Task One'', Description = ''Desc One'', Status = ''pending'',
               CreatedAt = 10, UpdatedAt = 10\<rparr>"

definition task_two :: Task where
  "task_two = \<lparr>ID = 2, Title = ''Task Two'', Description = ''Desc Two'', Status = ''completed'',
               CreatedAt = 20, UpdatedAt = 20\<rparr>"

definition two_db :: db where
  "two_db = \<lparr>rows = [task_one, task_two], next_id = 3, statements = [], ticks = 0,
             fault = (\<lambda>n. None), clock = (\<lambda>n. 1000 + n)\<rparr>"

text \<open>The same table on a server whose first interaction fails.\<close>

definition down_db :: db where
  "down_db = two_db\<lparr>fault := (\<lambda>n. if n = 0 then Some (DriverError ''connection refused'') else None)\<rparr>"

text \<open>The same table on a server whose second interaction fails.\<close>

definition flaky_db :: db where
  "flaky_db = two_db\<lparr>fault := (\<lambda>n. if n = 1 then Some (DriverError ''connection reset'') else None)\<rparr>"

text \<open>
  The same table on a server that loses the connection when the second row is fetched, and
  on one where scanning the first row fails.
\<close>

definition cut_db :: db where
  "cut_db = two_db\<lparr>fault := (\<lambda>n. if n = 3 then Some (DriverError ''connection reset'') else None)\<rparr>"

definition unscannable_db :: db where
  "unscannable_db = two_db\<lparr>fault := (\<lambda>n. if n = 2 then Some (DriverError ''converting NULL to string is unsupported'') else None)\<rparr>"

text \<open>Requests of the examples.\<close>

definition new_req :: CreateTaskRequest where
  "new_req = \<lparr>create_Title = ''My New Task'', create_Description = ''This is a test task.''\<rparr>"

definition untitled_req :: CreateTaskRequest where
  "untitled_req = \<lparr>create_Title = [], create_Description = ''Test Description''\<rparr>"

definition status_req :: UpdateTaskRequest where
  "status_req = \<lparr>update_Title = [], update_Description = [], update_Status = ''in_progress''\<rparr>"

definition bogus_req :: UpdateTaskRequest where
  "bogus_req = \<lparr>update_Title = ''New Title'', update_Description = [], update_Status = ''bogus''\<rparr>"

definition empty_req :: UpdateTaskRequest where
  "empty_req = \<lparr>update_Title = [], update_Description = [], update_Status = []\<rparr>"

section \<open>The task that an update writes\<close>

text \<open>
  The fetched task after the assignments of an update whose status is accepted: each of
  title, description and status is the request's when that is not empty.
\<close>

definition apply_updates :: "UpdateTaskRequest \<Rightarrow> Task \<Rightarrow> Task" where
  "apply_updates req existingTask =
     existingTask
       \<lparr>Title := (if update_Title req \<noteq> [] then update_Title req else Title existingTask),
        Description := (if update_Description req \<noteq> [] then update_Description req
                        else Description existingTask),
        Status := (if update_Status req \<noteq> [] then update_Status req else Status existingTask)\<rparr>"

section \<open>Wrapped errors\<close>

text \<open>
  \<open>wraps ctx err w\<close>: the error \<open>w\<close> carries the context \<open>ctx\<close> in front of the message of
  \<open>err\<close>, unwraps to \<open>err\<close>, and \<^verbatim>\<open>errors.Is(w, err)\<close> holds.
\<close>

definition wraps :: "string \<Rightarrow> go_error \<Rightarrow> go_error \<Rightarrow> bool" where
  "wraps ctx err w = (Error w = ctx @ Error err \<and> Unwrap w = Some err \<and> errors_Is w err)"

section \<open>Basic facts\<close>

lemmas example_defs = empty_db_def two_db_def down_db_def flaky_db_def cut_db_def unscannable_db_def
  task_one_def task_two_def
  new_req_def untitled_req_def status_req_def bogus_req_def empty_req_def

lemmas sql_defs = taskRepository_Create_def taskRepository_GetByID_def QueryRow_by_id_def
  taskRepository_GetAll_def taskRepository_Update_def taskRepository_Delete_def
  order_by_created_at_desc_def set_row_def send_def Let_def

lemmas service_defs = CreateTask_def GetTask_def GetAllTasks_def UpdateTask_def persist_update_def
  DeleteTask_def apply_updates_def errors_New_def Errorf_w_def Itoa_def digit_def

lemmas handler_defs = handler_CreateTask_def handler_GetTask_def handler_GetAllTasks_def
  handler_UpdateTask_def handler_DeleteTask_def http_Error_def

lemma errors_Is_refl: "errors_Is err err"
  by (cases err) simp_all

lemma wraps_Errorf_w: "wraps ctx err (Errorf_w ctx err)"
  by (simp add: wraps_def Errorf_w_def errors_Is_refl)

lemma taskRepository_sel [simp]:
  "Create taskRepository = taskRepository_Create"
  "GetByID taskRepository = taskRepository_GetByID"
  "GetAll taskRepository = taskRepository_GetAll"
  "Update taskRepository = taskRepository_Update"
  "Delete taskRepository = taskRepository_Delete"
  by (simp_all add: taskRepository_def)

lemma send_sel [simp]:
  "rows (send stmt d) = rows d"
  "next_id (send stmt d) = next_id d"
  "statements (send stmt d) = statements d @ [stmt]"
  "ticks (send stmt d) = Suc (ticks d)"
  "fault (send stmt d) = fault d"
  "clock (send stmt d) = clock d"
  by (simp_all add: send_def)

lemma find_ID: "find (\<lambda>r. ID r = tid) rs = Some t \<Longrightarrow> ID t = tid"
  by (induction rs) (auto split: if_splits)

lemma ID_set_row [simp]: "ID (set_row task now r) = ID r"
  by (simp add: set_row_def)

lemma find_map_set_row:
  "find (\<lambda>r. ID r = tid) (map (set_row task now) rs)
     = map_option (set_row task now) (find (\<lambda>r. ID r = tid) rs)"
  by (induction rs) simp_all

lemma filter_map_set_row:
  "filter (\<lambda>r. ID r \<noteq> ID task) (map (set_row task now) rs) = filter (\<lambda>r. ID r \<noteq> ID task) rs"
  by (induction rs) (simp_all add: set_row_def)

lemma apply_updates_sel [simp]:
  "ID (apply_updates req t) = ID t"
  "CreatedAt (apply_updates req t) = CreatedAt t"
  "UpdatedAt (apply_updates req t) = UpdatedAt t"
  "Title (apply_updates req t) = (if update_Title req = [] then Title t else update_Title req)"
  "Description (apply_updates req t)
     = (if update_Description req = [] then Description t else update_Description req)"
  "Status (apply_updates req t) = (if update_Status req = [] then Status t else update_Status req)"
  by (simp_all add: apply_updates_def)

lemma set_row_apply_updates:
  "set_row (apply_updates req t) now t = (apply_updates req t)\<lparr>UpdatedAt := now\<rparr>"
  by (simp add: set_row_def apply_updates_def)

subsection \<open>Every method of the SQL repository sends its statement\<close>

lemma scan_rows_statements: "statements (snd (scan_rows rs acc d)) = statements d"
  by (induction rs arbitrary: acc d) (auto split: option.splits)

lemma taskRepository_statements:
  "statements (snd (taskRepository_Create task d))
     = statements d @ [INSERT (Title task) (Description task) (Status task)]"
  "statements (snd (taskRepository_GetByID tid d)) = statements d @ [SELECT_BY_ID tid]"
  "statements (snd (taskRepository_GetAll d)) = statements d @ [SELECT_ALL]"
  "statements (snd (taskRepository_Update task d))
     = statements d @ [UPDATE (Title task) (Description task) (Status task) (ID task)]"
  "statements (snd (taskRepository_Delete tid d)) = statements d @ [DELETE tid]"
  by (simp_all add: taskRepository_Create_def taskRepository_GetByID_def taskRepository_GetAll_def
      taskRepository_Update_def taskRepository_Delete_def Let_def scan_rows_statements
      split: option.splits sum.splits)

subsection \<open>Reading and writing one row\<close>

lemma GetByID_found:
  "find (\<lambda>r. ID r = tid) (rows d) = Some t \<Longrightarrow> fault d (ticks d) = None \<Longrightarrow>
     taskRepository_GetByID tid d = (Inr t, send (SELECT_BY_ID tid) d)"
  by (simp add: taskRepository_GetByID_def QueryRow_by_id_def)

lemma GetByID_missing:
  "find (\<lambda>r. ID r = tid) (rows d) = None \<Longrightarrow> fault d (ticks d) = None \<Longrightarrow>
     taskRepository_GetByID tid d = (Inl ErrTaskNotFound, send (SELECT_BY_ID tid) d)"
  by (simp add: taskRepository_GetByID_def QueryRow_by_id_def)

lemma GetByID_missing_any:
  "find (\<lambda>r. ID r = tid) (rows d) = None \<Longrightarrow>
     \<exists>err. taskRepository_GetByID tid d = (Inl err, send (SELECT_BY_ID tid) d)"
  by (auto simp add: taskRepository_GetByID_def QueryRow_by_id_def Let_def split: option.splits)

lemma GetByID_fault:
  "fault d (ticks d) = Some err \<Longrightarrow> err \<noteq> ErrNoRows \<Longrightarrow>
     taskRepository_GetByID tid d = (Inl err, send (SELECT_BY_ID tid) d)"
  by (simp add: taskRepository_GetByID_def QueryRow_by_id_def)

lemma Update_found:
  "find (\<lambda>r. ID r = ID task) (rows d) = Some t \<Longrightarrow> fault d (ticks d) = None \<Longrightarrow>
     taskRepository_Update task d
       = (Inr (task\<lparr>UpdatedAt := clock d (ticks d)\<rparr>),
          (send (UPDATE (Title task) (Description task) (Status task) (ID task)) d)
            \<lparr>rows := map (set_row task (clock d (ticks d))) (rows d)\<rparr>)"
  by (simp add: taskRepository_Update_def Let_def)

lemma Delete_missing:
  "find (\<lambda>r. ID r = tid) (rows d) = None \<Longrightarrow> fault d (ticks d) = None \<Longrightarrow>
   fault d (Suc (ticks d)) = None \<Longrightarrow>
     fst (taskRepository_Delete tid d)
       = Some (ErrorString (''task with ID '' @ Itoa tid @ '' not found for deletion''))"
  by (simp add: taskRepository_Delete_def Let_def errors_New_def find_None_iff filter_empty_conv)

subsection \<open>The result of \<^verbatim>\<open>ORDER BY created_at DESC\<close> and of the scan loop\<close>



lemma length_order_by [simp]: "length (order_by_created_at_desc rs) = length rs"
  by (simp add: order_by_created_at_desc_def)



text \<open>
  The two failures of the loop on the table of two tasks: a fetch of the second row that
  fails gives the first task alone and no error, a scan that fails gives the error.
\<close>

lemma GetAll_cut_short:
  "fst (taskRepository_GetAll cut_db) = Inr (Some [task_two])"
  by (simp add: sql_defs example_defs)

lemma GetAll_scan_fails:
  "fst (taskRepository_GetAll unscannable_db)
     = Inl (DriverError ''converting NULL to string is unsupported'')"
  by (simp add: sql_defs example_defs)

subsection \<open>Update as one check and one write\<close>

lemma UpdateTask_eq:
  "UpdateTask repo tid req s =
     (if tid \<le> 0
      then (Inl (ErrorString ''invalid task ID''), s)
      else (case GetByID repo tid s of
              (Inl err, s1) \<Rightarrow>
                (Inl (Errorf_w (''task with ID '' @ Itoa tid @ '' not found: '') err), s1)
            | (Inr existingTask, s1) \<Rightarrow>
                if update_Status req \<noteq> []
                   \<and> update_Status req \<notin> {''pending'', ''in_progress'', ''completed''}
                then (Inl (ErrorString ''invalid status value''), s1)
                else persist_update repo (apply_updates req existingTask) s1))"
  by (simp add: UpdateTask_def apply_updates_def errors_New_def Let_def
      split: prod.splits sum.splits)

subsection \<open>The service on a failed or refused fetch\<close>

lemma GetTask_missing:
  "0 < tid \<Longrightarrow> GetByID repo tid s = (Inl ErrTaskNotFound, s1) \<Longrightarrow>
     GetTask repo tid s
       = (Inl (WrapError ''failed to get task from repository: task not found'' ErrTaskNotFound), s1)"
  by (simp add: GetTask_def Errorf_w_def)

lemma GetTask_other_failure:
  "0 < tid \<Longrightarrow> GetByID repo tid s = (Inl err, s1) \<Longrightarrow> \<not> errors_Is err ErrTaskNotFound \<Longrightarrow>
     \<exists>w. GetTask repo tid s = (Inl w, s1) \<and> \<not> errors_Is w ErrTaskNotFound \<and> errors_Is w err"
  by (simp add: GetTask_def Errorf_w_def errors_Is_refl)

lemma UpdateTask_fetch_error:
  "0 < tid \<Longrightarrow> GetByID repo tid s = (Inl err, s1) \<Longrightarrow>
     UpdateTask repo tid req s
       = (Inl (WrapError (''task with ID '' @ Itoa tid @ '' not found: '' @ Error err) err), s1)"
  by (simp add: UpdateTask_eq Errorf_w_def)

lemma UpdateTask_invalid_status:
  "0 < tid \<Longrightarrow> GetByID repo tid s = (Inr t, s1) \<Longrightarrow> update_Status req \<noteq> [] \<Longrightarrow>
   update_Status req \<notin> {''pending'', ''in_progress'', ''completed''} \<Longrightarrow>
     UpdateTask repo tid req s = (Inl (ErrorString ''invalid status value''), s1)"
  by (simp add: UpdateTask_eq)

lemma DeleteTask_missing_not_sentinel:
  "0 < tid \<Longrightarrow> find (\<lambda>r. ID r = tid) (rows d) = None \<Longrightarrow> fault d (ticks d) = None \<Longrightarrow>
   fault d (Suc (ticks d)) = None \<Longrightarrow>
     \<exists>w. fst (DeleteTask taskRepository tid d) = Some w \<and> \<not> errors_Is w ErrTaskNotFound"
  using Delete_missing [of tid d]
  by (auto simp add: DeleteTask_def Errorf_w_def split: prod.splits option.splits)

subsection \<open>What the handlers answer\<close>

text \<open>
  The messages of the service start with its context, so the comparisons of the handlers
  for get and delete hold for no error of the service: neither handler answers 404. The
  handler for update answers 500 when the task is missing.
\<close>

lemma handler_GetTask_never_404: "StatusCode (fst (handler_GetTask repo atoi s)) \<noteq> 404"
  by (auto simp add: handler_GetTask_def GetTask_def http_Error_def errors_New_def Errorf_w_def
      split: sum.splits prod.splits)

lemma handler_DeleteTask_never_404: "StatusCode (fst (handler_DeleteTask repo atoi s)) \<noteq> 404"
  by (auto simp add: handler_DeleteTask_def DeleteTask_def http_Error_def errors_New_def Errorf_w_def
      split: sum.splits prod.splits option.splits)

lemma handler_UpdateTask_missing_500:
  "0 < tid \<Longrightarrow> GetByID repo tid s = (Inl ErrTaskNotFound, s1) \<Longrightarrow>
     StatusCode (fst (handler_UpdateTask repo (Inr tid) (Inr req) s)) = 500"
  by (simp add: handler_UpdateTask_def UpdateTask_fetch_error http_Error_def)

section \<open>Validation before any store access\<close>

text \<open>
  C6. A create request with an empty title is rejected with the error
  \<^verbatim>\<open>title is required\<close>, for every repository and every state of it, and the state is
  the one before the call: the repository's \<open>Create\<close> is not invoked. For the SQL repository
  the log of statements sent is unchanged.
\<close>

theorem C6_create_empty_title:
  "create_Title req = [] \<Longrightarrow>
     CreateTask repo req s = (Inl (ErrorString ''title is required''), s)
     \<and> statements (snd (CreateTask taskRepository req d)) = statements d"
  by (simp add: CreateTask_def errors_New_def)

theorem C6_create_empty_title_witness:
  "create_Title untitled_req = []
   \<and> CreateTask taskRepository untitled_req two_db = (Inl (ErrorString ''title is required''), two_db)
   \<and> statements (snd (CreateTask taskRepository untitled_req two_db)) = statements two_db"
  using C6_create_empty_title [of untitled_req taskRepository two_db two_db]
  by (simp add: untitled_req_def)

text \<open>
  C8. An id that is zero or negative is rejected by get, update and delete with the error
  \<^verbatim>\<open>invalid task ID\<close>, for every repository, and the state of the repository is the one
  before the call: no method of the repository is invoked.
\<close>

theorem C8_nonpositive_id_rejected:
  "tid \<le> 0 \<Longrightarrow>
     GetTask repo tid s = (Inl (ErrorString ''invalid task ID''), s)
     \<and> UpdateTask repo tid req s = (Inl (ErrorString ''invalid task ID''), s)
     \<and> DeleteTask repo tid s = (Some (ErrorString ''invalid task ID''), s)"
  by (simp add: GetTask_def UpdateTask_eq DeleteTask_def errors_New_def)

theorem C8_nonpositive_id_rejected_witness:
  "(- 3 :: int) \<le> 0
   \<and> GetTask taskRepository (- 3) two_db = (Inl (ErrorString ''invalid task ID''), two_db)
   \<and> UpdateTask taskRepository (- 3) status_req two_db
       = (Inl (ErrorString ''invalid task ID''), two_db)
   \<and> DeleteTask taskRepository (- 3) two_db = (Some (ErrorString ''invalid task ID''), two_db)"
  using C8_nonpositive_id_rejected [of "- 3" taskRepository two_db status_req]
  by simp

section \<open>Creation\<close>

text \<open>
  C7. For a create request with a title that is not empty: whatever the repository, a task
  that the service returns is the one the repository's \<open>Create\<close> returned for the task
  with status \<^verbatim>\<open>pending\<close>, the title and description of the request, and id and
  timestamps left at zero. With the SQL repository on a server that does not fail, the
  service returns that task with the id of the sequence and both timestamps the server's
  \<^verbatim>\<open>NOW()\<close>; and whenever it returns a task, the task has status \<^verbatim>\<open>pending\<close>, the
  request's title and description, the id and the timestamps of the inserted row, and the
  statement sent carries title, description and \<^verbatim>\<open>pending\<close> only.
\<close>

theorem C7_create_pending:
  "create_Title req \<noteq> [] \<Longrightarrow>
     (CreateTask repo req s = (Inr task, s') \<longrightarrow>
        Create repo \<lparr>ID = 0, Title = create_Title req, Description = create_Description req,
                     Status = ''pending'', CreatedAt = 0, UpdatedAt = 0\<rparr> s = (Inr task, s'))
     \<and> (fault d (ticks d) = None \<longrightarrow>
          fst (CreateTask taskRepository req d)
            = Inr \<lparr>ID = next_id d, Title = create_Title req, Description = create_Description req,
                   Status = ''pending'', CreatedAt = clock d (ticks d),
                   UpdatedAt = clock d (ticks d)\<rparr>)
     \<and> (CreateTask taskRepository req d = (Inr created, d') \<longrightarrow>
          Status created = ''pending'' \<and> Title created = create_Title req
          \<and> Description created = create_Description req
          \<and> ID created = next_id d \<and> CreatedAt created = clock d (ticks d)
          \<and> UpdatedAt created = clock d (ticks d)
          \<and> statements d' = statements d @ [INSERT (create_Title req) (create_Description req) ''pending'']
          \<and> rows d' = rows d @ [created])"
  by (auto simp add: CreateTask_def taskRepository_Create_def Let_def
      split: option.splits prod.splits sum.splits)

theorem C7_create_pending_witness:
  "create_Title new_req \<noteq> []
   \<and> fault empty_db (ticks empty_db) = None
   \<and> fst (CreateTask taskRepository new_req empty_db)
       = Inr \<lparr>ID = 1, Title = ''My New Task'', Description = ''This is a test task.'',
              Status = ''pending'', CreatedAt = 1000, UpdatedAt = 1000\<rparr>
   \<and> Create taskRepository
        \<lparr>ID = 0, Title = ''My New Task'', Description = ''This is a test task.'',
         Status = ''pending'', CreatedAt = 0, UpdatedAt = 0\<rparr> empty_db
       = CreateTask taskRepository new_req empty_db
   \<and> statements (snd (CreateTask taskRepository new_req empty_db))
       = [INSERT ''My New Task'' ''This is a test task.'' ''pending'']
   \<and> rows (snd (CreateTask taskRepository new_req empty_db))
       = [\<lparr>ID = 1, Title = ''My New Task'', Description = ''This is a test task.'',
           Status = ''pending'', CreatedAt = 1000, UpdatedAt = 1000\<rparr>]"
  using C7_create_pending
    [of new_req taskRepository empty_db
        "\<lparr>ID = 1, Title = ''My New Task'', Description = ''This is a test task.'',
          Status = ''pending'', CreatedAt = 1000, UpdatedAt = 1000\<rparr>"
        "snd (CreateTask taskRepository new_req empty_db)" empty_db
        "\<lparr>ID = 1, Title = ''My New Task'', Description = ''This is a test task.'',
          Status = ''pending'', CreatedAt = 1000, UpdatedAt = 1000\<rparr>"
        "snd (CreateTask taskRepository new_req empty_db)"]
  by (simp add: service_defs sql_defs example_defs)

section \<open>Errors of the repository reach the caller wrapped\<close>

text \<open>
  C5. At each of the six calls that the service makes to a repository (\<open>Create\<close>,
  \<open>GetByID\<close> in get and in update, \<open>GetAll\<close>, \<open>Update\<close>, \<open>Delete\<close>), an error
  that the repository returns makes the service return an error, in the state the
  repository left; that error carries the context of the call in front of the message of
  the repository's error, unwraps to the repository's error itself, and
  \<^verbatim>\<open>errors.Is\<close> finds the repository's error in it.
\<close>

theorem C5_gateway_errors_wrapped:
  "(create_Title creq \<noteq> [] \<longrightarrow>
      Create repo \<lparr>ID = 0, Title = create_Title creq, Description = create_Description creq,
                   Status = ''pending'', CreatedAt = 0, UpdatedAt = 0\<rparr> s = (Inl err, s') \<longrightarrow>
      (\<exists>w. CreateTask repo creq s = (Inl w, s')
           \<and> wraps ''failed to create task in repository: '' err w))
   \<and> (0 < tid \<longrightarrow> GetByID repo tid s = (Inl err, s') \<longrightarrow>
      (\<exists>w. GetTask repo tid s = (Inl w, s')
           \<and> wraps ''failed to get task from repository: '' err w))
   \<and> (GetAll repo s = (Inl err, s') \<longrightarrow>
      (\<exists>w. GetAllTasks repo s = (Inl w, s')
           \<and> wraps ''failed to get all tasks from repository: '' err w))
   \<and> (0 < tid \<longrightarrow> GetByID repo tid s = (Inl err, s') \<longrightarrow>
      (\<exists>w. UpdateTask repo tid ureq s = (Inl w, s')
           \<and> wraps (''task with ID '' @ Itoa tid @ '' not found: '') err w))
   \<and> (0 < tid \<longrightarrow> GetByID repo tid s = (Inr existingTask, s1) \<longrightarrow>
      (update_Status ureq = [] \<or> update_Status ureq \<in> {''pending'', ''in_progress'', ''completed''}) \<longrightarrow>
      Update repo (apply_updates ureq existingTask) s1 = (Inl err, s') \<longrightarrow>
      (\<exists>w. UpdateTask repo tid ureq s = (Inl w, s')
           \<and> wraps ''failed to update task in repository: '' err w))
   \<and> (0 < tid \<longrightarrow> Delete repo tid s = (Some err, s') \<longrightarrow>
      (\<exists>w. DeleteTask repo tid s = (Some w, s')
           \<and> wraps ''failed to delete task from repository: '' err w))"
  by (auto simp add: CreateTask_def GetTask_def GetAllTasks_def UpdateTask_eq persist_update_def
      DeleteTask_def wraps_Errorf_w)

theorem C5_gateway_errors_wrapped_witness:
  "Create taskRepository
      \<lparr>ID = 0, Title = create_Title new_req, Description = create_Description new_req,
       Status = ''pending'', CreatedAt = 0, UpdatedAt = 0\<rparr> down_db
     = (Inl (DriverError ''connection refused''),
        send (INSERT ''My New Task'' ''This is a test task.'' ''pending'') down_db)
   \<and> fst (CreateTask taskRepository new_req down_db)
     = Inl (WrapError ''failed to create task in repository: connection refused''
             (DriverError ''connection refused''))
   \<and> fst (GetByID taskRepository 1 down_db) = Inl (DriverError ''connection refused'')
   \<and> fst (GetTask taskRepository 1 down_db)
     = Inl (WrapError ''failed to get task from repository: connection refused''
             (DriverError ''connection refused''))
   \<and> fst (GetAll taskRepository down_db) = Inl (DriverError ''connection refused'')
   \<and> fst (GetAllTasks taskRepository down_db)
     = Inl (WrapError ''failed to get all tasks from repository: connection refused''
             (DriverError ''connection refused''))
   \<and> fst (UpdateTask taskRepository 1 status_req down_db)
     = Inl (WrapError ''task with ID 1 not found: connection refused''
             (DriverError ''connection refused''))
   \<and> GetByID taskRepository 1 flaky_db = (Inr task_one, send (SELECT_BY_ID 1) flaky_db)
   \<and> fst (Update taskRepository (apply_updates status_req task_one) (send (SELECT_BY_ID 1) flaky_db))
     = Inl (DriverError ''connection reset'')
   \<and> fst (UpdateTask taskRepository 1 status_req flaky_db)
     = Inl (WrapError ''failed to update task in repository: connection reset''
             (DriverError ''connection reset''))
   \<and> fst (Delete taskRepository 1 down_db) = Some (DriverError ''connection refused'')
   \<and> fst (DeleteTask taskRepository 1 down_db)
     = Some (WrapError ''failed to delete task from repository: connection refused''
              (DriverError ''connection refused''))
   \<and> wraps ''failed to delete task from repository: '' (DriverError ''connection refused'')
        (WrapError ''failed to delete task from repository: connection refused''
              (DriverError ''connection refused''))"
  using C5_gateway_errors_wrapped
    [of new_req taskRepository down_db "DriverError ''connection refused''"
        "send (INSERT ''My New Task'' ''This is a test task.'' ''pending'') down_db"
        1 status_req]
    C5_gateway_errors_wrapped
    [of new_req taskRepository flaky_db "DriverError ''connection reset''"
        "snd (UpdateTask taskRepository 1 status_req flaky_db)"
        1 status_req task_one "send (SELECT_BY_ID 1) flaky_db"]
  by (simp add: service_defs sql_defs example_defs wraps_def)

section \<open>Reading all tasks\<close>



section \<open>Updating\<close>

text \<open>
  C3. Update of a task that exists, with the SQL repository and a server that answers the
  fetch. A status that is not empty and is none of \<^verbatim>\<open>pending\<close>, \<^verbatim>\<open>in_progress\<close>,
  \<^verbatim>\<open>completed\<close> gives the error \<^verbatim>\<open>invalid status value\<close>; the rows are the ones
  before the call and the only statement sent is the fetch. Otherwise, when the server
  answers the write too, the task returned has the request's title, description and
  status where they are not empty and the stored ones where they are empty, the id and the
  creation time of the stored task, and it is the row now stored under that id.
\<close>

theorem C3_update_overrides:
  assumes "0 < tid" and "find (\<lambda>r. ID r = tid) (rows d) = Some t" and "fault d (ticks d) = None"
  shows "(update_Status req \<noteq> [] \<and> update_Status req \<notin> {''pending'', ''in_progress'', ''completed''} \<longrightarrow>
            fst (UpdateTask taskRepository tid req d) = Inl (ErrorString ''invalid status value'')
            \<and> rows (snd (UpdateTask taskRepository tid req d)) = rows d
            \<and> statements (snd (UpdateTask taskRepository tid req d))
                = statements d @ [SELECT_BY_ID tid])
         \<and> ((update_Status req = [] \<or> update_Status req \<in> {''pending'', ''in_progress'', ''completed''}) \<longrightarrow>
            fault d (Suc (ticks d)) = None \<longrightarrow>
            (\<exists>task d'. UpdateTask taskRepository tid req d = (Inr task, d')
               \<and> Title task = (if update_Title req = [] then Title t else update_Title req)
               \<and> Description task
                   = (if update_Description req = [] then Description t else update_Description req)
               \<and> Status task = (if update_Status req = [] then Status t else update_Status req)
               \<and> ID task = ID t \<and> CreatedAt task = CreatedAt t
               \<and> find (\<lambda>r. ID r = tid) (rows d') = Some task))"
proof (intro conjI impI)
  have fetch: "taskRepository_GetByID tid d = (Inr t, send (SELECT_BY_ID tid) d)"
    using assms by (simp add: GetByID_found)
  {
    assume "update_Status req \<noteq> [] \<and> update_Status req \<notin> {''pending'', ''in_progress'', ''completed''}"
    then have "UpdateTask taskRepository tid req d
                 = (Inl (ErrorString ''invalid status value''), send (SELECT_BY_ID tid) d)"
      using assms(1) fetch by (simp add: UpdateTask_invalid_status)
    then show "fst (UpdateTask taskRepository tid req d) = Inl (ErrorString ''invalid status value'')"
      and "rows (snd (UpdateTask taskRepository tid req d)) = rows d"
      and "statements (snd (UpdateTask taskRepository tid req d)) = statements d @ [SELECT_BY_ID tid]"
      by simp_all
  }
  assume valid: "update_Status req = [] \<or> update_Status req \<in> {''pending'', ''in_progress'', ''completed''}"
    and ok: "fault d (Suc (ticks d)) = None"
  let ?t' = "apply_updates req t"
  let ?d1 = "send (SELECT_BY_ID tid) d"
  let ?now = "clock d (Suc (ticks d))"
  have idt: "ID t = tid"
    using assms(2) by (rule find_ID)
  have found: "find (\<lambda>r. ID r = ID ?t') (rows ?d1) = Some t"
    using assms(2) idt by simp
  have upd: "taskRepository_Update ?t' ?d1
               = (Inr (?t'\<lparr>UpdatedAt := ?now\<rparr>),
                  (send (UPDATE (Title ?t') (Description ?t') (Status ?t') (ID ?t')) ?d1)
                    \<lparr>rows := map (set_row ?t' ?now) (rows ?d1)\<rparr>)"
    using Update_found [OF found] ok by simp
  have res: "UpdateTask taskRepository tid req d
               = (Inr (?t'\<lparr>UpdatedAt := ?now\<rparr>),
                  (send (UPDATE (Title ?t') (Description ?t') (Status ?t') (ID ?t')) ?d1)
                    \<lparr>rows := map (set_row ?t' ?now) (rows ?d1)\<rparr>)"
    using assms(1) fetch valid upd by (auto simp add: UpdateTask_eq persist_update_def)
  have stored: "find (\<lambda>r. ID r = tid) (map (set_row ?t' ?now) (rows d)) = Some (?t'\<lparr>UpdatedAt := ?now\<rparr>)"
    using assms(2) by (simp add: find_map_set_row set_row_apply_updates)
  show "\<exists>task d'. UpdateTask taskRepository tid req d = (Inr task, d')
               \<and> Title task = (if update_Title req = [] then Title t else update_Title req)
               \<and> Description task
                   = (if update_Description req = [] then Description t else update_Description req)
               \<and> Status task = (if update_Status req = [] then Status t else update_Status req)
               \<and> ID task = ID t \<and> CreatedAt task = CreatedAt t
               \<and> find (\<lambda>r. ID r = tid) (rows d') = Some task"
    using res stored by simp
qed

theorem C3_update_overrides_witness:
  "(0::int) < 1 \<and> find (\<lambda>r. ID r = 1) (rows two_db) = Some task_one
   \<and> fault two_db (ticks two_db) = None \<and> fault two_db (Suc (ticks two_db)) = None
   \<and> update_Status bogus_req \<notin> {''pending'', ''in_progress'', ''completed''}
   \<and> fst (UpdateTask taskRepository 1 bogus_req two_db) = Inl (ErrorString ''invalid status value'')
   \<and> rows (snd (UpdateTask taskRepository 1 bogus_req two_db)) = [task_one, task_two]
   \<and> statements (snd (UpdateTask taskRepository 1 bogus_req two_db)) = [SELECT_BY_ID 1]
   \<and> update_Status status_req \<in> {''pending'', ''in_progress'', ''completed''}
   \<and> fst (UpdateTask taskRepository 1 status_req two_db)
       = Inr \<lparr>ID = 1, Title = ''Task One'', Description = ''Desc One'', Status = ''in_progress'',
              CreatedAt = 10, UpdatedAt = 1001\<rparr>
   \<and> rows (snd (UpdateTask taskRepository 1 status_req two_db))
       = [\<lparr>ID = 1, Title = ''Task One'', Description = ''Desc One'', Status = ''in_progress'',
           CreatedAt = 10, UpdatedAt = 1001\<rparr>, task_two]"
  using C3_update_overrides [of 1 two_db task_one bogus_req]
    C3_update_overrides [of 1 two_db task_one status_req]
  by (simp add: service_defs sql_defs example_defs)

text \<open>
  C4. Update with a positive id under which the table of the SQL repository has no row: the
  service returns an error, the rows are the ones before the call, and the only statement
  sent is the fetch, so no \<^verbatim>\<open>UPDATE\<close> is sent. When the server answers the fetch, the
  error wraps \<^verbatim>\<open>ErrTaskNotFound\<close> and \<^verbatim>\<open>errors.Is\<close> finds it there; when the fetch
  fails with an error of the driver, \<^verbatim>\<open>errors.Is\<close> does not.
\<close>

theorem C4_update_missing:
  assumes "0 < tid" and "find (\<lambda>r. ID r = tid) (rows d) = None"
  shows "isl (fst (UpdateTask taskRepository tid req d))
         \<and> rows (snd (UpdateTask taskRepository tid req d)) = rows d
         \<and> statements (snd (UpdateTask taskRepository tid req d)) = statements d @ [SELECT_BY_ID tid]
         \<and> (fault d (ticks d) = None \<longrightarrow>
              fst (UpdateTask taskRepository tid req d)
                = Inl (WrapError (''task with ID '' @ Itoa tid @ '' not found: task not found'')
                        ErrTaskNotFound)
              \<and> errors_Is (projl (fst (UpdateTask taskRepository tid req d))) ErrTaskNotFound)
         \<and> (fault d (ticks d) = Some (DriverError msg) \<longrightarrow>
              \<not> errors_Is (projl (fst (UpdateTask taskRepository tid req d))) ErrTaskNotFound)"
proof -
  obtain err where fetch: "taskRepository_GetByID tid d = (Inl err, send (SELECT_BY_ID tid) d)"
    using GetByID_missing_any [OF assms(2)] by blast
  have res: "UpdateTask taskRepository tid req d
        = (Inl (WrapError (''task with ID '' @ Itoa tid @ '' not found: '' @ Error err) err),
           send (SELECT_BY_ID tid) d)"
    using assms(1) fetch by (simp add: UpdateTask_fetch_error)
  have a: "fault d (ticks d) = None \<Longrightarrow> err = ErrTaskNotFound"
    using fetch GetByID_missing [OF assms(2)] by simp
  have b: "fault d (ticks d) = Some (DriverError msg) \<Longrightarrow> err = DriverError msg"
    using fetch GetByID_fault [of d "DriverError msg" tid] by simp
  show ?thesis
    using res a b by auto
qed

theorem C4_update_missing_witness:
  "(0::int) < 99 \<and> find (\<lambda>r. ID r = 99) (rows two_db) = None
   \<and> fault two_db (ticks two_db) = None
   \<and> UpdateTask taskRepository 99 bogus_req two_db
       = (Inl (WrapError ''task with ID 99 not found: task not found'' ErrTaskNotFound),
          send (SELECT_BY_ID 99) two_db)
   \<and> errors_Is (WrapError ''task with ID 99 not found: task not found'' ErrTaskNotFound) ErrTaskNotFound
   \<and> fault down_db (ticks down_db) = Some (DriverError ''connection refused'')
   \<and> fst (UpdateTask taskRepository 99 bogus_req down_db)
       = Inl (WrapError ''task with ID 99 not found: connection refused''
                (DriverError ''connection refused''))"
  using C4_update_missing [of 99 two_db bogus_req]
    C4_update_missing [of 99 down_db bogus_req "''connection refused''"]
  by (simp add: service_defs sql_defs example_defs)

text \<open>
  C10. Update with a request whose title, description and status are all empty. Whatever
  the repository, the service calls its \<open>Update\<close> with the task as fetched and returns what
  that call gives. With the SQL repository and a server that answers both statements, an
  \<^verbatim>\<open>UPDATE\<close> with the stored title, description and status is sent after the fetch, the
  task returned and the row stored under the id are the stored task with \<open>UpdatedAt\<close> set
  to the server's \<^verbatim>\<open>NOW()\<close>, and the rows of other ids are as before.
\<close>

theorem C10_empty_update_still_writes:
  assumes "0 < tid"
    and "update_Title req = []" and "update_Description req = []" and "update_Status req = []"
  shows "(GetByID repo tid s = (Inr t, s1) \<longrightarrow>
            UpdateTask repo tid req s
              = (case Update repo t s1 of
                   (Inl err, s2) \<Rightarrow> (Inl (Errorf_w ''failed to update task in repository: '' err), s2)
                 | (Inr task, s2) \<Rightarrow> (Inr task, s2)))
         \<and> (find (\<lambda>r. ID r = tid) (rows d) = Some row \<longrightarrow>
            fault d (ticks d) = None \<longrightarrow> fault d (Suc (ticks d)) = None \<longrightarrow>
            fst (UpdateTask taskRepository tid req d) = Inr (row\<lparr>UpdatedAt := clock d (Suc (ticks d))\<rparr>)
            \<and> statements (snd (UpdateTask taskRepository tid req d))
                = statements d @ [SELECT_BY_ID tid,
                                  UPDATE (Title row) (Description row) (Status row) tid]
            \<and> find (\<lambda>r. ID r = tid) (rows (snd (UpdateTask taskRepository tid req d)))
                = Some (row\<lparr>UpdatedAt := clock d (Suc (ticks d))\<rparr>)
            \<and> filter (\<lambda>r. ID r \<noteq> tid) (rows (snd (UpdateTask taskRepository tid req d)))
                = filter (\<lambda>r. ID r \<noteq> tid) (rows d))"
proof (intro conjI impI)
  have same: "apply_updates req x = x" for x
    using assms(2-4) by (simp add: apply_updates_def)
  show "UpdateTask repo tid req s
          = (case Update repo t s1 of
               (Inl err, s2) \<Rightarrow> (Inl (Errorf_w ''failed to update task in repository: '' err), s2)
             | (Inr task, s2) \<Rightarrow> (Inr task, s2))"
    if "GetByID repo tid s = (Inr t, s1)"
    using that assms(1,4) by (simp add: UpdateTask_eq persist_update_def same)
  assume f: "find (\<lambda>r. ID r = tid) (rows d) = Some row"
    and ok1: "fault d (ticks d) = None" and ok2: "fault d (Suc (ticks d)) = None"
  let ?d1 = "send (SELECT_BY_ID tid) d"
  let ?now = "clock d (Suc (ticks d))"
  have idr: "ID row = tid"
    using f by (rule find_ID)
  have fetch: "taskRepository_GetByID tid d = (Inr row, ?d1)"
    using f ok1 by (rule GetByID_found)
  have found: "find (\<lambda>r. ID r = ID row) (rows ?d1) = Some row"
    using f idr by simp
  have upd: "taskRepository_Update row ?d1
               = (Inr (row\<lparr>UpdatedAt := ?now\<rparr>),
                  (send (UPDATE (Title row) (Description row) (Status row) (ID row)) ?d1)
                    \<lparr>rows := map (set_row row ?now) (rows ?d1)\<rparr>)"
    using Update_found [OF found] ok2 by simp
  have res: "UpdateTask taskRepository tid req d
               = (Inr (row\<lparr>UpdatedAt := ?now\<rparr>),
                  (send (UPDATE (Title row) (Description row) (Status row) tid) ?d1)
                    \<lparr>rows := map (set_row row ?now) (rows d)\<rparr>)"
    using assms(1,4) fetch upd idr by (simp add: UpdateTask_eq persist_update_def same)
  have row': "set_row row ?now row = row\<lparr>UpdatedAt := ?now\<rparr>"
    by (simp add: set_row_def)
  show "fst (UpdateTask taskRepository tid req d) = Inr (row\<lparr>UpdatedAt := ?now\<rparr>)"
    using res by simp
  show "statements (snd (UpdateTask taskRepository tid req d))
          = statements d @ [SELECT_BY_ID tid, UPDATE (Title row) (Description row) (Status row) tid]"
    using res by simp
  show "find (\<lambda>r. ID r = tid) (rows (snd (UpdateTask taskRepository tid req d)))
          = Some (row\<lparr>UpdatedAt := ?now\<rparr>)"
    using res f row' by (simp add: find_map_set_row)
  show "filter (\<lambda>r. ID r \<noteq> tid) (rows (snd (UpdateTask taskRepository tid req d)))
          = filter (\<lambda>r. ID r \<noteq> tid) (rows d)"
    using res filter_map_set_row [of row ?now "rows d"] idr by simp
qed

theorem C10_empty_update_still_writes_witness:
  "(0::int) < 1 \<and> update_Title empty_req = [] \<and> update_Description empty_req = []
   \<and> update_Status empty_req = []
   \<and> find (\<lambda>r. ID r = 1) (rows two_db) = Some task_one
   \<and> fault two_db (ticks two_db) = None \<and> fault two_db (Suc (ticks two_db)) = None
   \<and> GetByID taskRepository 1 two_db = (Inr task_one, send (SELECT_BY_ID 1) two_db)
   \<and> fst (UpdateTask taskRepository 1 empty_req two_db) = Inr (task_one\<lparr>UpdatedAt := 1001\<rparr>)
   \<and> statements (snd (UpdateTask taskRepository 1 empty_req two_db))
       = [SELECT_BY_ID 1, UPDATE ''Task One'' ''Desc One'' ''pending'' 1]
   \<and> rows (snd (UpdateTask taskRepository 1 empty_req two_db))
       = [task_one\<lparr>UpdatedAt := 1001\<rparr>, task_two]"
  using C10_empty_update_still_writes
    [of 1 empty_req taskRepository two_db task_one "send (SELECT_BY_ID 1) two_db" two_db task_one]
  by (simp add: service_defs sql_defs example_defs)

section \<open>A missing task at the handlers\<close>

text \<open>
  C2. Get of id 999 on an empty table. The service returns an error that wraps
  \<^verbatim>\<open>ErrTaskNotFound\<close>; its message is the service's context followed by
  \<^verbatim>\<open>task not found\<close>. The handler compares that message with
  \<^verbatim>\<open>task with ID 999 not found\<close>, finds them different, and answers 500 with the
  message of a failed retrieval, not 404.
\<close>

theorem C2_get_missing_answers_500:
  "fst (GetTask taskRepository 999 empty_db)
     = Inl (WrapError ''failed to get task from repository: task not found'' ErrTaskNotFound)
   \<and> fst (handler_GetTask taskRepository (Inr 999) empty_db)
     = \<lparr>StatusCode = 500,
        Body = Text (''failed to retrieve task: failed to get task from repository: task not found''
                     @ [CHR 0x0A])\<rparr>"
  by (simp add: handler_defs service_defs sql_defs example_defs)

text \<open>
  C1. Delete of id 1 twice on the table of two tasks. The first call succeeds. The second
  returns an error that wraps a fresh error value holding only the text
  \<^verbatim>\<open>task with ID 1 not found for deletion\<close>; \<^verbatim>\<open>errors.Is\<close> does not find
  \<^verbatim>\<open>ErrTaskNotFound\<close> in it, and the handler answers 500.
\<close>

theorem C1_delete_twice_no_sentinel:
  "fst (DeleteTask taskRepository 1 two_db) = None
   \<and> fst (DeleteTask taskRepository 1 (snd (DeleteTask taskRepository 1 two_db)))
       = Some (WrapError ''failed to delete task from repository: task with ID 1 not found for deletion''
                (ErrorString ''task with ID 1 not found for deletion''))
   \<and> errors_Is (WrapError ''failed to delete task from repository: task with ID 1 not found for deletion''
                (ErrorString ''task with ID 1 not found for deletion'')) ErrTaskNotFound = False
   \<and> StatusCode (fst (handler_DeleteTask taskRepository (Inr 1)
                        (snd (DeleteTask taskRepository 1 two_db)))) = 500"
  by (simp add: handler_defs service_defs sql_defs example_defs)

end
